theory Spec2Isabelle
  imports Complex_Main
begin

section \<open>Data model\<close>

text \<open>
  The feature record of \<^verbatim>\<open>src/types\<close> (repeated at the head of the single-file
  application):
  \<^verbatim>\<open>
  export type FeatureType = 'polygon' | 'rectangle' | 'circle' | 'marker'
  export interface AOIFeature {
    id: string
    name: string
    type: FeatureType
    coordinates: number[][] | { center: number[]; radius: number } | number[]
    area?: number
    color: string
    createdAt: string
  }
  \<close>
  Conventions of the embedding.
  \<^item> A JavaScript number is a \<^typ>\<open>real\<close>: the arithmetic of the source is read as exact
    arithmetic, rounding of IEEE doubles is not part of the model. Where a result depends
    on the values the platform gives \<^verbatim>\<open>Math.PI\<close>, \<^verbatim>\<open>Math.sin\<close> and \<^verbatim>\<open>Math.cos\<close> (the ring
    exported for a circle), these three are arguments of the model.
  \<^item> The two-element arrays \<^verbatim>\<open>[lat, lng]\<close> and \<^verbatim>\<open>[lng, lat]\<close>, which the source only
    ever builds as two-element literals and reads at the indices 0 and 1, are pairs:
    \<^verbatim>\<open>c[0]\<close> is \<^term>\<open>fst c\<close> and \<^verbatim>\<open>c[1]\<close> is \<^term>\<open>snd c\<close>.
  \<^item> The fields \<^verbatim>\<open>id\<close> and \<^verbatim>\<open>type\<close> are called \<open>f_id\<close> and \<open>f_type\<close> (\<open>id\<close> is
    the identity function of HOL). An optional field is an \<open>option\<close>.
  \<^item> The three alternatives of \<^verbatim>\<open>coordinates\<close> are the constructors of a datatype. The
    source selects the alternative with an unchecked cast on \<^verbatim>\<open>type\<close>, so tag and shape
    are independent fields here as well.
\<close>

datatype FeatureType = Polygon | Rectangle | Circle | Marker

datatype Coordinates =
    Ring "(real \<times> real) list"
  | CircleShape "real \<times> real" real
  | Position "real \<times> real"

record AOIFeature =
  f_id :: string
  name :: string
  f_type :: FeatureType
  coordinates :: Coordinates
  area :: "real option"
  color :: string
  createdAt :: string

text \<open>\<^verbatim>\<open>Partial<AOIFeature>\<close>: every key may be absent; \<^verbatim>\<open>area\<close>, when present, may
  itself hold \<^verbatim>\<open>undefined\<close>.\<close>

record FeatureUpdates =
  u_id :: "string option"
  u_name :: "string option"
  u_type :: "FeatureType option"
  u_coordinates :: "Coordinates option"
  u_area :: "real option option"
  u_color :: "string option"
  u_createdAt :: "string option"

definition override :: "'a \<Rightarrow> 'a option \<Rightarrow> 'a" where
  "override old new = (case new of None \<Rightarrow> old | Some v \<Rightarrow> v)"

text \<open>The object spread \<^verbatim>\<open>{ ...f, ...updates }\<close>: a key of \<^verbatim>\<open>updates\<close> wins.\<close>

definition spread :: "AOIFeature \<Rightarrow> FeatureUpdates \<Rightarrow> AOIFeature" where
  "spread f u =
     \<lparr> f_id = override (f_id f) (u_id u),
       name = override (name f) (u_name u),
       f_type = override (f_type f) (u_type u),
       coordinates = override (coordinates f) (u_coordinates u),
       area = override (area f) (u_area u),
       color = override (color f) (u_color u),
       createdAt = override (createdAt f) (u_createdAt u) \<rparr>"

definition no_updates :: FeatureUpdates where
  "no_updates =
     \<lparr> u_id = None, u_name = None, u_type = None, u_coordinates = None,
       u_area = None, u_color = None, u_createdAt = None \<rparr>"

text \<open>The only update the user interface issues (\<^verbatim>\<open>onUpdate({ name })\<close> in the feature
  list): an object with the single key \<^verbatim>\<open>name\<close>.\<close>

definition name_only :: "string \<Rightarrow> FeatureUpdates" where
  "name_only n = no_updates \<lparr> u_name := Some n \<rparr>"


section \<open>The store (\<^verbatim>\<open>src/stores/mapStore.ts\<close>)\<close>

text \<open>
  \<^verbatim>\<open>
  layers: { wms: boolean; drawing: boolean; features: boolean }
  \<close>
\<close>

record Layers =
  wms :: bool
  drawing :: bool
  features_layer :: bool

datatype LayerKey = WmsKey | DrawingKey | FeaturesKey

record MapStore =
  center :: "real \<times> real"
  zoom :: real
  layers :: Layers
  features :: "AOIFeature list"
  selectedFeature :: "AOIFeature option"

text \<open>
  Every action calls the store's \<^verbatim>\<open>set\<close> with a partial state (or a function from the
  current state to one); \<^verbatim>\<open>set\<close> merges it into the current state, key by key. A partial
  state is a record of optional fields.
\<close>

record PartialStore =
  p_center :: "(real \<times> real) option"
  p_zoom :: "real option"
  p_layers :: "Layers option"
  p_features :: "AOIFeature list option"
  p_selectedFeature :: "AOIFeature option option"

definition nothing :: PartialStore where
  "nothing =
     \<lparr> p_center = None, p_zoom = None, p_layers = None, p_features = None,
       p_selectedFeature = None \<rparr>"

definition merge :: "MapStore \<Rightarrow> PartialStore \<Rightarrow> MapStore" where
  "merge s p =
     \<lparr> center = override (center s) (p_center p),
       zoom = override (zoom s) (p_zoom p),
       layers = override (layers s) (p_layers p),
       features = override (features s) (p_features p),
       selectedFeature = override (selectedFeature s) (p_selectedFeature p) \<rparr>"

definition set_store :: "(MapStore \<Rightarrow> PartialStore) \<Rightarrow> MapStore \<Rightarrow> MapStore" where
  "set_store f s = merge s (f s)"

text \<open>The initial state: \<^verbatim>\<open>center: [51.5074, 7.4912], zoom: 10, layers: { wms: true,
  drawing: false, features: true }, features: [], selectedFeature: null\<close>.\<close>

definition initial_store :: MapStore where
  "initial_store =
     \<lparr> center = (51.5074, 7.4912), zoom = 10,
       layers = \<lparr> wms = True, drawing = False, features_layer = True \<rparr>,
       features = [], selectedFeature = None \<rparr>"

definition setCenter :: "real \<times> real \<Rightarrow> MapStore \<Rightarrow> MapStore" where
  "setCenter c = set_store (\<lambda>state. nothing \<lparr> p_center := Some c \<rparr>)"

definition setZoom :: "real \<Rightarrow> MapStore \<Rightarrow> MapStore" where
  "setZoom z = set_store (\<lambda>state. nothing \<lparr> p_zoom := Some z \<rparr>)"

definition toggle :: "LayerKey \<Rightarrow> Layers \<Rightarrow> Layers" where
  "toggle k l =
     (case k of
        WmsKey \<Rightarrow> l \<lparr> wms := \<not> wms l \<rparr>
      | DrawingKey \<Rightarrow> l \<lparr> drawing := \<not> drawing l \<rparr>
      | FeaturesKey \<Rightarrow> l \<lparr> features_layer := \<not> features_layer l \<rparr>)"

definition toggleLayer :: "LayerKey \<Rightarrow> MapStore \<Rightarrow> MapStore" where
  "toggleLayer k =
     set_store (\<lambda>state. nothing \<lparr> p_layers := Some (toggle k (layers state)) \<rparr>)"

text \<open>\<^verbatim>\<open>addFeature: (feature) => set((state) => ({ features: [...state.features, feature] }))\<close>\<close>

definition addFeature :: "AOIFeature \<Rightarrow> MapStore \<Rightarrow> MapStore" where
  "addFeature feature =
     set_store (\<lambda>state. nothing \<lparr> p_features := Some (features state @ [feature]) \<rparr>)"

text \<open>\<^verbatim>\<open>removeFeature: (id) => set((state) => ({ features:
  state.features.filter((f) => f.id !== id) }))\<close>\<close>

definition removeFeature :: "string \<Rightarrow> MapStore \<Rightarrow> MapStore" where
  "removeFeature i =
     set_store (\<lambda>state.
       nothing \<lparr> p_features := Some (filter (\<lambda>f. f_id f \<noteq> i) (features state)) \<rparr>)"

text \<open>\<^verbatim>\<open>updateFeature: (id, updates) => set((state) => ({ features:
  state.features.map((f) => f.id === id ? { ...f, ...updates } : f) }))\<close>\<close>

definition updateFeature :: "string \<Rightarrow> FeatureUpdates \<Rightarrow> MapStore \<Rightarrow> MapStore" where
  "updateFeature i updates =
     set_store (\<lambda>state.
       nothing \<lparr> p_features :=
         Some (map (\<lambda>f. if f_id f = i then spread f updates else f) (features state)) \<rparr>)"

definition setSelectedFeature :: "AOIFeature option \<Rightarrow> MapStore \<Rightarrow> MapStore" where
  "setSelectedFeature feature =
     set_store (\<lambda>state. nothing \<lparr> p_selectedFeature := Some feature \<rparr>)"

definition clearFeatures :: "MapStore \<Rightarrow> MapStore" where
  "clearFeatures = set_store (\<lambda>state. nothing \<lparr> p_features := Some [] \<rparr>)"

text \<open>The rename of the specification is \<^verbatim>\<open>updateFeature(id, { name })\<close>.\<close>

definition renameFeature :: "string \<Rightarrow> string \<Rightarrow> MapStore \<Rightarrow> MapStore" where
  "renameFeature i n = updateFeature i (name_only n)"

text \<open>The single-file application keeps the list in component state instead:
  \<^verbatim>\<open>setFeatures(prev => [...prev, feature])\<close> in the draw handler and
  \<^verbatim>\<open>setFeatures(prev => prev.filter(f => f.id !== id))\<close> in \<^verbatim>\<open>removeFeature\<close>, which
  then shows the information toast \<^verbatim>\<open>Feature deleted\<close> whatever the list held. The two
  functions below are the updates of the list.\<close>

definition app_addFeature :: "AOIFeature \<Rightarrow> AOIFeature list \<Rightarrow> AOIFeature list" where
  "app_addFeature feature prev = prev @ [feature]"

definition app_removeFeature :: "string \<Rightarrow> AOIFeature list \<Rightarrow> AOIFeature list" where
  "app_removeFeature i prev = filter (\<lambda>f. f_id f \<noteq> i) prev"

text \<open>A marker feature used in the concrete instances below.\<close>

definition pin :: AOIFeature where
  "pin =
     \<lparr> f_id = ''m1'', name = ''AOI 1'', f_type = Marker,
       coordinates = Position (12.9, 77.6), area = None,
       color = ''#ef4444'', createdAt = ''2024-01-01T00:00:00.000Z'' \<rparr>"


text \<open>A second marker with the same id as \<open>pin\<close>, and a marker with an id of its own.\<close>

definition twin :: AOIFeature where
  "twin =
     \<lparr> f_id = ''m1'', name = ''AOI 2'', f_type = Marker,
       coordinates = Position (13.1, 77.9), area = None,
       color = ''#ef4444'', createdAt = ''2024-01-01T00:00:05.000Z'' \<rparr>"

definition flag :: AOIFeature where
  "flag =
     \<lparr> f_id = ''m2'', name = ''AOI 3'', f_type = Marker,
       coordinates = Position (13.5, 78.2), area = None,
       color = ''#ef4444'', createdAt = ''2024-01-01T00:00:06.000Z'' \<rparr>"


section \<open>Geometry (\<^verbatim>\<open>src/utils/mapUtils.ts\<close>)\<close>

text \<open>Leaflet's \<^verbatim>\<open>L.LatLng\<close>, of which the source reads \<^verbatim>\<open>.lat\<close> and \<^verbatim>\<open>.lng\<close>.\<close>

record LatLng =
  lat :: real
  lng :: real

definition EARTH_RADIUS :: real where
  "EARTH_RADIUS = 6378137"

text \<open>
  \<^verbatim>\<open>
  export function calculatePolygonArea(latlngs: L.LatLng[]): number {
    if (!latlngs || latlngs.length < 3) return 0
    const EARTH_RADIUS = 6378137 // meters
    let total = 0
    const pts = latlngs
    for (let i = 0, l = pts.length; i < l; i++) {
      const p1 = pts[i]
      const p2 = pts[(i + 1) % l]
      total += (p2.lng - p1.lng) * Math.PI / 180 *
               (2 + Math.sin(p1.lat * Math.PI / 180) + Math.sin(p2.lat * Math.PI / 180))
    }
    return Math.abs(total * EARTH_RADIUS * EARTH_RADIUS / 2)
  }
  \<close>
  The copy in the single-file application is the same loop with \<^verbatim>\<open>latlngs.length\<close> in
  place of \<^verbatim>\<open>l\<close>. The argument is an \<open>option\<close> for the null check; the loop is the
  recursion \<open>area_loop\<close> on the counter (\<open>tot\<close> is \<^verbatim>\<open>total\<close>), whose reads \<^verbatim>\<open>pts[i]\<close> and
  \<^verbatim>\<open>pts[(i + 1) % l]\<close> are in range while \<open>i < l\<close>.
\<close>

definition summand :: "LatLng \<Rightarrow> LatLng \<Rightarrow> real" where
  "summand p1 p2 =
     (lng p2 - lng p1) * pi / 180 *
       (2 + sin (lat p1 * pi / 180) + sin (lat p2 * pi / 180))"

function area_loop :: "LatLng list \<Rightarrow> nat \<Rightarrow> real \<Rightarrow> real" where
  "area_loop pts i tot =
     (if i < length pts
      then area_loop pts (i + 1)
             (tot + summand (pts ! i) (pts ! ((i + 1) mod length pts)))
      else tot)"
  by pat_completeness auto
termination
  by (relation "measure (\<lambda>(pts, i, tot). length pts - i)") auto

definition calculatePolygonArea :: "LatLng list option \<Rightarrow> real" where
  "calculatePolygonArea latlngs =
     (case latlngs of
        None \<Rightarrow> 0
      | Some pts \<Rightarrow>
          if length pts < 3 then 0
          else \<bar>area_loop pts 0 0 * EARTH_RADIUS * EARTH_RADIUS / 2\<bar>)"



text \<open>\<^verbatim>\<open>export function calculateCircleArea(radius) { return Math.PI * radius * radius }\<close>\<close>

definition calculateCircleArea :: "real \<Rightarrow> real" where
  "calculateCircleArea radius = pi * radius * radius"



definition FEATURE_COLORS :: "FeatureType \<Rightarrow> string" where
  "FEATURE_COLORS t =
     (case t of
        Polygon \<Rightarrow> ''#3b82f6''
      | Rectangle \<Rightarrow> ''#10b981''
      | Circle \<Rightarrow> ''#8b5cf6''
      | Marker \<Rightarrow> ''#ef4444'')"


section \<open>Creating a feature from a drawn layer\<close>

text \<open>
  The layer of a draw event is a Leaflet object; the source casts it by the event's type
  and calls \<^verbatim>\<open>getLatLngs()[0]\<close>, or \<^verbatim>\<open>getLatLng()\<close> and \<^verbatim>\<open>getRadius()\<close>, or
  \<^verbatim>\<open>getLatLng()\<close>. A polygon or rectangle layer has \<^verbatim>\<open>getLatLngs\<close> (a list of rings), a
  circle has \<^verbatim>\<open>getLatLng\<close> and \<^verbatim>\<open>getRadius\<close>, a marker has \<^verbatim>\<open>getLatLng\<close>. Calling a
  method the object lacks, or \<^verbatim>\<open>.map\<close> on the missing first ring, raises a TypeError.
\<close>

datatype DrawnLayer =
    PolygonLayer "LatLng list list"
  | CircleLayer LatLng real
  | MarkerLayer LatLng

datatype js_error = TypeError | SyntaxError

text \<open>
  \<^verbatim>\<open>
  let coordinates: AOIFeature['coordinates']
  let area = 0
  if (type === 'polygon' || type === 'rectangle') {
    const latlngs = polygonLayer.getLatLngs()[0] as L.LatLng[]
    coordinates = latlngs.map(ll => [ll.lat, ll.lng])
    area = calculatePolygonArea(latlngs)
  } else if (type === 'circle') {
    const center = circleLayer.getLatLng()
    const radius = circleLayer.getRadius()
    coordinates = { center: [center.lat, center.lng], radius }
    area = calculateCircleArea(radius)
  } else {
    const pos = markerLayer.getLatLng()
    coordinates = [pos.lat, pos.lng]
  }
  \<close>
  The draw handler of the single-file application has the same three branches, with
  \<^verbatim>\<open>Math.PI * circle.getRadius() * circle.getRadius()\<close> written out.
\<close>

definition coordinates_and_area ::
  "DrawnLayer \<Rightarrow> FeatureType \<Rightarrow> js_error + Coordinates \<times> real" where
  "coordinates_and_area layer t =
     (if t = Polygon \<or> t = Rectangle then
        (case layer of
           PolygonLayer rings \<Rightarrow>
             (case rings of
                [] \<Rightarrow> Inl TypeError
              | latlngs # _ \<Rightarrow>
                  Inr (Ring (map (\<lambda>ll. (lat ll, lng ll)) latlngs),
                       calculatePolygonArea (Some latlngs)))
         | _ \<Rightarrow> Inl TypeError)
      else if t = Circle then
        (case layer of
           CircleLayer c radius \<Rightarrow>
             Inr (CircleShape (lat c, lng c) radius, calculateCircleArea radius)
         | _ \<Rightarrow> Inl TypeError)
      else
        (case layer of
           MarkerLayer pos \<Rightarrow> Inr (Position (lat pos, lng pos), 0)
         | CircleLayer pos _ \<Rightarrow> Inr (Position (lat pos, lng pos), 0)
         | PolygonLayer _ \<Rightarrow> Inl TypeError))"

text \<open>Decimal digits of a natural number, for the template \<^verbatim>\<open>`AOI ${n + 1}`\<close>.\<close>

fun string_of_nat :: "nat \<Rightarrow> string" where
  "string_of_nat n =
     (if n < 10 then [''0123456789'' ! n]
      else string_of_nat (n div 10) @ [''0123456789'' ! (n mod 10)])"

text \<open>
  \<^verbatim>\<open>
  return {
    id: generateId(),
    name: name || `AOI ${existingFeatureCount + 1}`,
    type,
    coordinates,
    area: area > 0 ? area : undefined,
    color: FEATURE_COLORS[type],
    createdAt: new Date().toISOString()
  }
  \<close>
  The fresh identifier and the clock reading are arguments (\<open>new_id\<close>, \<open>now\<close>).
\<close>

definition createFeatureFromLayer ::
  "string \<Rightarrow> string \<Rightarrow> DrawnLayer \<Rightarrow> FeatureType \<Rightarrow> string \<Rightarrow> nat
     \<Rightarrow> js_error + AOIFeature" where
  "createFeatureFromLayer new_id now layer t nm existingFeatureCount =
     (case coordinates_and_area layer t of
        Inl e \<Rightarrow> Inl e
      | Inr (coords, a) \<Rightarrow>
          Inr \<lparr> f_id = new_id,
                name = (if nm = [] then ''AOI '' @ string_of_nat (existingFeatureCount + 1)
                        else nm),
                f_type = t,
                coordinates = coords,
                area = (if a > 0 then Some a else None),
                color = FEATURE_COLORS t,
                createdAt = now \<rparr>)"

text \<open>The feature built by the \<^verbatim>\<open>draw:created\<close> handler of the single-file application:
  the name is always \<^verbatim>\<open>`AOI ${features.length + 1}`\<close>.\<close>

definition draw_created ::
  "string \<Rightarrow> string \<Rightarrow> DrawnLayer \<Rightarrow> FeatureType \<Rightarrow> AOIFeature list
     \<Rightarrow> js_error + AOIFeature" where
  "draw_created new_id now layer t fs =
     (case coordinates_and_area layer t of
        Inl e \<Rightarrow> Inl e
      | Inr (coords, a) \<Rightarrow>
          Inr \<lparr> f_id = new_id,
                name = ''AOI '' @ string_of_nat (length fs + 1),
                f_type = t,
                coordinates = coords,
                area = (if a > 0 then Some a else None),
                color = FEATURE_COLORS t,
                createdAt = now \<rparr>)"


text \<open>Drawn layers for the concrete instances: a polygon whose three vertices lie on the
  meridian of 77 degrees, and a circle of radius 100 m.\<close>

definition meridian :: DrawnLayer where
  "meridian =
     PolygonLayer
       [ [\<lparr>lat = 10, lng = 77\<rparr>, \<lparr>lat = 11, lng = 77\<rparr>, \<lparr>lat = 12, lng = 77\<rparr>] ]"

definition disc :: DrawnLayer where
  "disc = CircleLayer \<lparr>lat = 10, lng = 77\<rparr> 100"


section \<open>GeoJSON export (\<^verbatim>\<open>exportGeoJSON\<close> of the single-file application)\<close>

text \<open>
  \<^verbatim>\<open>
  features: features.map(f => ({
    type: 'Feature',
    properties: { id: f.id, name: f.name, type: f.type, area: f.area, createdAt: f.createdAt },
    geometry: f.type === 'marker'
      ? { type: 'Point', coordinates: [(f.coordinates as number[])[1], (f.coordinates as number[])[0]] }
      : { type: 'Polygon', coordinates: [f.type === 'circle'
          ? (() => {
              const c = f.coordinates as { center: number[]; radius: number }
              const pts: number[][] = []
              for (let i = 0; i <= 32; i++) {
                const angle = (i / 32) * 2 * Math.PI
                pts.push([
                  c.center[1] + (c.radius / (111320 * Math.cos(c.center[0] * Math.PI / 180))) * Math.sin(angle),
                  c.center[0] + (c.radius / 111320) * Math.cos(angle)
                ])
              }
              return pts
            })()
          : [...(f.coordinates as number[][]).map(c => [c[1], c[0]]),
             [(f.coordinates as number[][])[0][1], (f.coordinates as number[][])[0][0]]]
        ]
      }
  }))
  \<close>
  A position of the document is the pair \<open>(lng, lat)\<close>. Where the tag and the shape of a
  feature disagree the casts are unchecked: reading \<^verbatim>\<open>.center[1]\<close> of an array, calling
  \<^verbatim>\<open>.map\<close> on a circle object, or reading \<^verbatim>\<open>[0][1]\<close> of an empty ring raises a
  TypeError; the other combinations index a number or an object and yield entries that
  are \<^verbatim>\<open>undefined\<close> or nested arrays, which is the geometry \<open>NotPositions\<close>.

  The circle branch calls \<^verbatim>\<open>Math.cos\<close>, \<^verbatim>\<open>Math.sin\<close> and \<^verbatim>\<open>Math.PI\<close> of the platform;
  they are the fields of the argument \<open>M\<close>. It pushes 33 samples, for \<open>i\<close> from 0 to 32,
  and never copies the first one. A division by 0 does not raise in JavaScript: it
  gives an infinity or NaN, and then no sample of the ring is a pair of numbers; such a
  sample is \<open>None\<close>, and a ring with such a sample is \<open>NotPositions\<close>.
\<close>

record Math =
  Math_PI :: real
  Math_sin :: "real \<Rightarrow> real"
  Math_cos :: "real \<Rightarrow> real"

datatype Geometry =
    Point "real \<times> real"
  | PolygonGeometry "(real \<times> real) list list"
  | NotPositions

record Properties =
  pr_id :: string
  pr_name :: string
  pr_type :: FeatureType
  pr_area :: "real option"
  pr_createdAt :: string

record GeoFeature =
  properties :: Properties
  geometry :: Geometry

definition circle_point ::
  "Math \<Rightarrow> real \<times> real \<Rightarrow> real \<Rightarrow> nat \<Rightarrow> (real \<times> real) option" where
  "circle_point M c_center c_radius i =
     (let angle = (real i / 32) * 2 * Math_PI M;
          divisor = 111320 * Math_cos M (fst c_center * Math_PI M / 180)
      in if divisor = 0 then None
         else Some (snd c_center + (c_radius / divisor) * Math_sin M angle,
                    fst c_center + (c_radius / 111320) * Math_cos M angle))"

function circle_loop ::
  "Math \<Rightarrow> real \<times> real \<Rightarrow> real \<Rightarrow> nat \<Rightarrow> (real \<times> real) option list
     \<Rightarrow> (real \<times> real) option list" where
  "circle_loop M c_center c_radius i pts =
     (if i \<le> 32
      then circle_loop M c_center c_radius (i + 1)
             (pts @ [circle_point M c_center c_radius i])
      else pts)"
  by pat_completeness auto
termination
  by (relation "measure (\<lambda>(M, c_center, c_radius, i, pts). 33 - i)") auto

definition circle_ring :: "Math \<Rightarrow> real \<times> real \<Rightarrow> real \<Rightarrow> (real \<times> real) option list" where
  "circle_ring M c_center c_radius = circle_loop M c_center c_radius 0 []"

definition polygon_ring :: "(real \<times> real) list \<Rightarrow> js_error + (real \<times> real) list" where
  "polygon_ring coords =
     (case coords of
        [] \<Rightarrow> Inl TypeError
      | first # _ \<Rightarrow> Inr (map (\<lambda>c. (snd c, fst c)) coords @ [(snd first, fst first)]))"

definition export_geometry :: "Math \<Rightarrow> AOIFeature \<Rightarrow> js_error + Geometry" where
  "export_geometry M f =
     (if f_type f = Marker then
        (case coordinates f of
           Position p \<Rightarrow> Inr (Point (snd p, fst p))
         | _ \<Rightarrow> Inr NotPositions)
      else if f_type f = Circle then
        (case coordinates f of
           CircleShape c_center c_radius \<Rightarrow>
             (case those (circle_ring M c_center c_radius) of
                None \<Rightarrow> Inr NotPositions
              | Some pts \<Rightarrow> Inr (PolygonGeometry [pts]))
         | _ \<Rightarrow> Inl TypeError)
      else
        (case coordinates f of
           Ring coords \<Rightarrow>
             (case polygon_ring coords of
                Inl e \<Rightarrow> Inl e
              | Inr ring \<Rightarrow> Inr (PolygonGeometry [ring]))
         | CircleShape _ _ \<Rightarrow> Inl TypeError
         | Position _ \<Rightarrow> Inr NotPositions))"

definition export_feature :: "Math \<Rightarrow> AOIFeature \<Rightarrow> js_error + GeoFeature" where
  "export_feature M f =
     (case export_geometry M f of
        Inl e \<Rightarrow> Inl e
      | Inr g \<Rightarrow>
          Inr \<lparr> properties =
                  \<lparr> pr_id = f_id f, pr_name = name f, pr_type = f_type f,
                    pr_area = area f, pr_createdAt = createdAt f \<rparr>,
                geometry = g \<rparr>)"

text \<open>\<^verbatim>\<open>features.map\<close> with a callback that may raise: the first error ends the map.\<close>

fun map_raising :: "('a \<Rightarrow> js_error + 'b) \<Rightarrow> 'a list \<Rightarrow> js_error + 'b list" where
  "map_raising g [] = Inr []"
| "map_raising g (x # xs) =
     (case g x of
        Inl e \<Rightarrow> Inl e
      | Inr y \<Rightarrow> (case map_raising g xs of Inl e \<Rightarrow> Inl e | Inr ys \<Rightarrow> Inr (y # ys)))"

text \<open>\<^verbatim>\<open>if (features.length === 0) { showToast('No features to export', 'warning'); return }\<close>:
  the result \<open>None\<close> is that early return, \<open>Some\<close> holds the features of the collection
  that is serialised and downloaded.\<close>

definition exportGeoJSON ::
  "Math \<Rightarrow> AOIFeature list \<Rightarrow> js_error + GeoFeature list option" where
  "exportGeoJSON M fs =
     (if length fs = 0 then Inr None
      else (case map_raising (export_feature M) fs of
              Inl e \<Rightarrow> Inl e
            | Inr gs \<Rightarrow> Inr (Some gs)))"

text \<open>The source has no importer. The re-import of the round-trip property is the one the
  specification words: drop the closing point of the ring and transpose each position
  back to \<open>(lat, lng)\<close>.\<close>

definition reimport_ring :: "(real \<times> real) list \<Rightarrow> (real \<times> real) list" where
  "reimport_ring ring = map (\<lambda>p. (snd p, fst p)) (butlast ring)"


text \<open>The ring the round-trip property speaks of: every stored vertex transposed, then
  the transposed first vertex.\<close>

definition transposed_closed :: "(real \<times> real) list \<Rightarrow> (real \<times> real) list" where
  "transposed_closed vs =
     map (\<lambda>c. (snd c, fst c)) vs @ map (\<lambda>c. (snd c, fst c)) (take 1 vs)"

definition properties_of :: "AOIFeature \<Rightarrow> Properties" where
  "properties_of f =
     \<lparr> pr_id = f_id f, pr_name = name f, pr_type = f_type f,
       pr_area = area f, pr_createdAt = createdAt f \<rparr>"

text \<open>The platform's values in IEEE doubles, at the arguments the concrete case below
  reaches: \<^verbatim>\<open>Math.PI\<close> is the double \<^verbatim>\<open>3.141592653589793\<close>, which is exactly
  \<open>884279719003555 / 2 ^ 48\<close>; \<^verbatim>\<open>Math.sin(2 * Math.PI)\<close> is the double
  \<^verbatim>\<open>-2.4492935982947064e-16\<close>, which is exactly \<open>- 4967757600021511 / 2 ^ 104\<close>, not 0;
  \<^verbatim>\<open>Math.cos(2 * Math.PI)\<close> is 1; \<^verbatim>\<open>Math.sin(0)\<close> is 0 and \<^verbatim>\<open>Math.cos(0)\<close> is 1. At other
  arguments the instance takes the exact functions.\<close>

definition doubles :: Math where
  "doubles =
     \<lparr> Math_PI = 884279719003555 / 281474976710656,
       Math_sin = (\<lambda>x. if x = 2 * (884279719003555 / 281474976710656)
                        then - (4967757600021511 / 2 ^ 104) else sin x),
       Math_cos = (\<lambda>x. if x = 2 * (884279719003555 / 281474976710656)
                        then 1 else cos x) \<rparr>"

text \<open>Features for the concrete cases: a circle of radius 1000 m centred at latitude 0,
  longitude 0; a polygon whose ring is empty.\<close>

definition roundel :: AOIFeature where
  "roundel =
     \<lparr> f_id = ''c1'', name = ''AOI 3'', f_type = Circle,
       coordinates = CircleShape (0, 0) 1000, area = Some (calculateCircleArea 1000),
       color = ''#8b5cf6'', createdAt = ''2024-01-01T00:00:02.000Z'' \<rparr>"

definition hollow :: AOIFeature where
  "hollow =
     \<lparr> f_id = ''p2'', name = ''AOI 4'', f_type = Polygon,
       coordinates = Ring [], area = None,
       color = ''#3b82f6'', createdAt = ''2024-01-01T00:00:03.000Z'' \<rparr>"


section \<open>Loading the persisted features\<close>

text \<open>
  \<^verbatim>\<open>
  const [features, setFeatures] = useState<AOIFeature[]>(() => {
    const saved = localStorage.getItem('aoi-features')
    return saved ? JSON.parse(saved) : []
  })
  \<close>
  \<^verbatim>\<open>localStorage\<close> is a map from keys to strings, \<^verbatim>\<open>getItem\<close> of a missing key is
  \<^verbatim>\<open>null\<close>; the empty string is falsy as well. \<^verbatim>\<open>JSON.parse\<close> belongs to the platform
  and is an argument of the model: it returns the parsed value or raises a SyntaxError.
\<close>

type_synonym Storage = "string \<rightharpoonup> string"

definition load_features ::
  "(string \<Rightarrow> js_error + AOIFeature list) \<Rightarrow> Storage \<Rightarrow> js_error + AOIFeature list" where
  "load_features JSON_parse localStorage =
     (case localStorage ''aoi-features'' of
        None \<Rightarrow> Inr []
      | Some saved \<Rightarrow> if saved = [] then Inr [] else JSON_parse saved)"

text \<open>An instance of the parser for the two texts used below: \<^verbatim>\<open>[]\<close> is the empty
  array, and \<^verbatim>\<open>{\<close> is not a JSON text, on which \<^verbatim>\<open>JSON.parse\<close> raises a SyntaxError.\<close>

definition parse_two_texts :: "string \<Rightarrow> js_error + AOIFeature list" where
  "parse_two_texts s = (if s = ''[]'' then Inr [] else Inl SyntaxError)"


section \<open>Rebuilding the layers of the map from the features\<close>























text \<open>A mounted surface holding one stale layer, and a square drawn as a polygon.\<close>

definition square :: AOIFeature where
  "square =
     \<lparr> f_id = ''p1'', name = ''AOI 2'', f_type = Polygon,
       coordinates = Ring [(0, 0), (0, 1), (1, 1), (1, 0)], area = Some 12364000000,
       color = ''#3b82f6'', createdAt = ''2024-01-01T00:00:01.000Z'' \<rparr>"






section \<open>Lemmas about the store\<close>

lemma merge_features_only:
  "merge s (nothing \<lparr> p_features := Some fs \<rparr>) = s \<lparr> features := fs \<rparr>"
  by (simp add: merge_def nothing_def override_def)

lemma addFeature_eq: "addFeature f s = s \<lparr> features := features s @ [f] \<rparr>"
  by (simp add: addFeature_def set_store_def merge_features_only)

lemma removeFeature_eq:
  "removeFeature i s = s \<lparr> features := filter (\<lambda>f. f_id f \<noteq> i) (features s) \<rparr>"
  by (simp add: removeFeature_def set_store_def merge_features_only)

lemma updateFeature_eq:
  "updateFeature i u s =
     s \<lparr> features := map (\<lambda>f. if f_id f = i then spread f u else f) (features s) \<rparr>"
  by (simp add: updateFeature_def set_store_def merge_features_only)

lemma clearFeatures_eq: "clearFeatures s = s \<lparr> features := [] \<rparr>"
  by (simp add: clearFeatures_def set_store_def merge_features_only)

lemma spread_name_only: "spread f (name_only n) = f \<lparr> name := n \<rparr>"
  by (simp add: spread_def name_only_def no_updates_def override_def)

lemma filter_absent:
  "i \<notin> f_id ` set fs \<Longrightarrow> filter (\<lambda>f. f_id f \<noteq> i) fs = fs"
  by (induction fs) auto

lemma map_absent:
  "i \<notin> f_id ` set fs \<Longrightarrow> map (\<lambda>f. if f_id f = i then g f else f) fs = fs"
  by (induction fs) auto

lemma filter_unique:
  "distinct (map f_id fs) \<Longrightarrow> f \<in> set fs \<Longrightarrow>
     filter (\<lambda>g. f_id g \<noteq> f_id f) fs = remove1 f fs"
proof (induction fs)
  case Nil
  then show ?case by simp
next
  case (Cons g fs)
  show ?case
  proof (cases "g = f")
    case True
    with Cons.prems have "f_id f \<notin> f_id ` set fs" by auto
    then show ?thesis using True by (simp add: filter_absent)
  next
    case False
    with Cons.prems have "f \<in> set fs" and "f_id g \<noteq> f_id f" by auto
    with Cons show ?thesis using False by simp
  qed
qed


section \<open>Lemmas about the geometry\<close>

lemma area_loop_sum:
  "i \<le> length pts \<Longrightarrow>
     area_loop pts i tot =
       tot + (\<Sum>k = i..<length pts. summand (pts ! k) (pts ! ((k + 1) mod length pts)))"
proof (induction pts i tot rule: area_loop.induct)
  case (1 pts i tot)
  show ?case
  proof (cases "i < length pts")
    case True
    then have "area_loop pts i tot =
        area_loop pts (i + 1) (tot + summand (pts ! i) (pts ! ((i + 1) mod length pts)))"
      by (subst area_loop.simps) simp
    also have "\<dots> = tot + summand (pts ! i) (pts ! ((i + 1) mod length pts)) +
        (\<Sum>k = i + 1..<length pts. summand (pts ! k) (pts ! ((k + 1) mod length pts)))"
      using "1.IH" [OF True] True by simp
    also have "\<dots> = tot +
        (\<Sum>k = i..<length pts. summand (pts ! k) (pts ! ((k + 1) mod length pts)))"
      using True by (simp add: sum.atLeast_Suc_lessThan)
    finally show ?thesis .
  next
    case False
    with "1.prems" have "i = length pts" by simp
    then show ?thesis by (subst area_loop.simps) simp
  qed
qed

lemma area_loop_total:
  "area_loop pts 0 0 = (\<Sum>k<length pts. summand (pts ! k) (pts ! ((k + 1) mod length pts)))"
  using area_loop_sum [of 0 pts 0] by (simp add: atLeast0LessThan)


lemma sum3: "(\<Sum>k<(3::nat). g k) = g 0 + g 1 + (g 2 :: real)"
  by (simp add: eval_nat_numeral)

lemma meridian_area:
  "calculatePolygonArea
     (Some [\<lparr>lat = 10, lng = 77\<rparr>, \<lparr>lat = 11, lng = 77\<rparr>, \<lparr>lat = 12, lng = 77\<rparr>]) = 0"
  by (simp add: calculatePolygonArea_def area_loop_total sum3 summand_def)

lemma circle_area_positive: "0 < calculateCircleArea r \<longleftrightarrow> r \<noteq> 0"
  by (auto simp add: calculateCircleArea_def zero_less_mult_iff mult.assoc)

lemma coordinates_and_area_cases:
  assumes "coordinates_and_area layer t = Inr (coords, a)"
  shows "(t = Marker \<longrightarrow> a = 0)
    \<and> (t = Circle \<longrightarrow> (\<exists>c r. layer = CircleLayer c r \<and> a = calculateCircleArea r))
    \<and> (t = Polygon \<or> t = Rectangle \<longrightarrow>
         (\<exists>ring rest. layer = PolygonLayer (ring # rest)
            \<and> a = calculatePolygonArea (Some ring)))"
  using assms
  by (cases t; cases layer)
     (auto simp add: coordinates_and_area_def split: list.splits)

lemma circle_loop_map:
  "i \<le> 33 \<Longrightarrow>
     circle_loop M c r i pts = pts @ map (circle_point M c r) [i..<33]"
proof (induction M c r i pts rule: circle_loop.induct)
  case (1 M c r i pts)
  show ?case
  proof (cases "i \<le> 32")
    case True
    then have "circle_loop M c r i pts =
        circle_loop M c r (i + 1) (pts @ [circle_point M c r i])"
      by (subst circle_loop.simps) simp
    also have "\<dots> = (pts @ [circle_point M c r i]) @ map (circle_point M c r) [i + 1..<33]"
      using "1.IH" [OF True] True by simp
    also have "\<dots> = pts @ map (circle_point M c r) [i..<33]"
      using True by (simp add: upt_conv_Cons)
    finally show ?thesis .
  next
    case False
    with "1.prems" have "i = 33" by simp
    then show ?thesis by (subst circle_loop.simps) simp
  qed
qed

lemma circle_ring_map: "circle_ring M c r = map (circle_point M c r) [0..<33]"
  using circle_loop_map [of 0 M c r "[]"] by (simp add: circle_ring_def)

lemma upt_33: "[0..<33] = [0..<32] @ [32]"
proof -
  have "[0..<Suc 32] = [0..<32] @ [32]" by (rule upt_Suc_append) simp
  then show ?thesis by simp
qed

lemma upt_32_nonempty: "[0..<32] = 0 # [1..<32]"
  by (simp add: upt_conv_Cons)

lemma circle_ring_ends:
  "hd (circle_ring M c r) = circle_point M c r 0"
  "last (circle_ring M c r) = circle_point M c r 32"
  "length (circle_ring M c r) = 33"
proof -
  show "hd (circle_ring M c r) = circle_point M c r 0"
    by (simp only: circle_ring_map upt_33 upt_32_nonempty map_append list.map) simp
  show "last (circle_ring M c r) = circle_point M c r 32"
    by (simp only: circle_ring_map upt_33 map_append list.map) simp
  show "length (circle_ring M c r) = 33"
    by (simp add: circle_ring_map)
qed

lemma first_sample_doubles:
  "circle_point doubles (0, 0) 1000 0 = Some (0, 1000 / 111320)"
  by (simp add: circle_point_def doubles_def Let_def)

lemma last_sample_doubles:
  "circle_point doubles (0, 0) 1000 32 =
     Some (- (1000 / 111320 * (4967757600021511 / 2 ^ 104)), 1000 / 111320)"
  by (simp add: circle_point_def doubles_def Let_def)

lemma those_map_Some: "those (map Some xs) = Some xs"
  by (induction xs) simp_all

lemma circle_ring_doubles_Some:
  "circle_ring doubles (0, 0) 1000 = map Some (map the (circle_ring doubles (0, 0) 1000))"
proof -
  have "circle_point doubles (0, 0) 1000 i = Some (the (circle_point doubles (0, 0) 1000 i))" for i
    by (simp add: circle_point_def doubles_def Let_def)
  then have "map (circle_point doubles (0, 0) 1000) [0..<33] =
      map Some (map the (map (circle_point doubles (0, 0) 1000) [0..<33]))"
    by (simp add: comp_def)
  then show ?thesis by (simp only: circle_ring_map)
qed

lemma export_roundel:
  "export_geometry doubles roundel =
     Inr (PolygonGeometry [map the (circle_ring doubles (0, 0) 1000)])"
proof -
  have "those (circle_ring doubles (0, 0) 1000) = Some (map the (circle_ring doubles (0, 0) 1000))"
    by (subst circle_ring_doubles_Some) (rule those_map_Some)
  then show ?thesis
    by (simp add: export_geometry_def roundel_def)
qed


section \<open>Lemmas about the export\<close>

lemma map_raising_returns:
  "map_raising g xs = Inr ys \<Longrightarrow>
     length ys = length xs \<and> (\<forall>i<length xs. g (xs ! i) = Inr (ys ! i))"
proof (induction xs arbitrary: ys)
  case Nil
  then show ?case by simp
next
  case (Cons x xs)
  from Cons.prems obtain y zs where
    y: "g x = Inr y" and zs: "map_raising g xs = Inr zs" and ys: "ys = y # zs"
    by (auto split: sum.splits)
  from Cons.IH [OF zs] have
    len: "length zs = length xs" and nth: "\<forall>i<length xs. g (xs ! i) = Inr (zs ! i)"
    by simp_all
  have "g ((x # xs) ! i) = Inr (ys ! i)" if "i < length (x # xs)" for i
  proof (cases i)
    case 0
    with y ys show ?thesis by simp
  next
    case (Suc j)
    with that nth ys show ?thesis by simp
  qed
  with len ys show ?case by simp
qed

lemma map_raising_error:
  "x \<in> set xs \<Longrightarrow> g x = Inl e \<Longrightarrow> \<exists>e'. map_raising g xs = Inl e'"
  by (induction xs) (auto split: sum.splits)

lemma reimport_transposed_closed:
  "vs \<noteq> [] \<Longrightarrow> reimport_ring (transposed_closed vs) = vs"
  by (cases vs) (simp_all add: reimport_ring_def transposed_closed_def comp_def)

lemma polygon_ring_nonempty:
  "vs \<noteq> [] \<Longrightarrow> polygon_ring vs = Inr (transposed_closed vs)"
  by (cases vs) (simp_all add: polygon_ring_def transposed_closed_def)

lemma export_feature_geometry:
  "export_geometry M f = Inr g \<Longrightarrow>
     export_feature M f = Inr \<lparr> properties = properties_of f, geometry = g \<rparr>"
  by (simp add: export_feature_def properties_of_def)

lemma export_feature_error:
  "export_geometry M f = Inl e \<Longrightarrow> export_feature M f = Inl e"
  by (simp add: export_feature_def)


section \<open>Lemmas about the rebuild\<close>











section \<open>Verified properties\<close>






text \<open>
  C3, as the code has it. For every polygon or rectangle feature whose ring of stored
  vertices is not empty, the exported geometry is the polygon whose single ring is each
  stored \<open>(lat, lng)\<close> vertex transposed to \<open>(lng, lat)\<close> followed by the transposed first
  vertex; dropping the closing point of that ring and transposing back gives exactly the
  stored vertices. \<open>exportGeoJSON\<close> of the feature alone is the collection of that one
  feature, and in every collection that \<open>exportGeoJSON\<close> returns the feature at the place of
  the feature carries this geometry. When the ring is empty the export of the geometry
  raises a TypeError, and so does \<open>exportGeoJSON\<close> of every list that holds the feature.
\<close>

theorem polygon_ring_roundtrip:
  assumes "f_type f = Polygon \<or> f_type f = Rectangle"
    and "coordinates f = Ring vs"
  shows "(vs \<noteq> [] \<longrightarrow>
            export_geometry M f = Inr (PolygonGeometry [transposed_closed vs])
          \<and> transposed_closed vs = map (\<lambda>c. (snd c, fst c)) vs @ [(snd (hd vs), fst (hd vs))]
          \<and> reimport_ring (transposed_closed vs) = vs
          \<and> exportGeoJSON M [f] =
              Inr (Some [\<lparr> properties = properties_of f,
                           geometry = PolygonGeometry [transposed_closed vs] \<rparr>])
          \<and> (\<forall>fs gs. exportGeoJSON M fs = Inr (Some gs) \<longrightarrow>
                length gs = length fs
              \<and> (\<forall>i<length fs. fs ! i = f \<longrightarrow>
                    gs ! i = \<lparr> properties = properties_of f,
                              geometry = PolygonGeometry [transposed_closed vs] \<rparr>)))
       \<and> (vs = [] \<longrightarrow>
            export_geometry M f = Inl TypeError
          \<and> (\<forall>fs. f \<in> set fs \<longrightarrow> (\<exists>e. exportGeoJSON M fs = Inl e)))"
proof (intro conjI impI)
  assume ne: "vs \<noteq> []"
  from assms ne show geo: "export_geometry M f = Inr (PolygonGeometry [transposed_closed vs])"
    by (auto simp add: export_geometry_def polygon_ring_nonempty)
  from ne show "transposed_closed vs = map (\<lambda>c. (snd c, fst c)) vs @ [(snd (hd vs), fst (hd vs))]"
    by (cases vs) (simp_all add: transposed_closed_def)
  from ne show "reimport_ring (transposed_closed vs) = vs"
    by (rule reimport_transposed_closed)
  note feat = export_feature_geometry [OF geo]
  from feat show "exportGeoJSON M [f] =
      Inr (Some [\<lparr> properties = properties_of f,
                   geometry = PolygonGeometry [transposed_closed vs] \<rparr>])"
    by (simp add: exportGeoJSON_def)
  show "\<forall>fs gs. exportGeoJSON M fs = Inr (Some gs) \<longrightarrow>
          length gs = length fs
        \<and> (\<forall>i<length fs. fs ! i = f \<longrightarrow>
              gs ! i = \<lparr> properties = properties_of f,
                        geometry = PolygonGeometry [transposed_closed vs] \<rparr>)"
  proof (intro allI impI)
    fix fs gs
    assume "exportGeoJSON M fs = Inr (Some gs)"
    then have "map_raising (export_feature M) fs = Inr gs"
      by (auto simp add: exportGeoJSON_def split: if_splits sum.splits)
    from map_raising_returns [OF this] feat
    show "length gs = length fs
        \<and> (\<forall>i<length fs. fs ! i = f \<longrightarrow>
              gs ! i = \<lparr> properties = properties_of f,
                        geometry = PolygonGeometry [transposed_closed vs] \<rparr>)"
      by auto
  qed
next
  assume e: "vs = []"
  with assms show geo: "export_geometry M f = Inl TypeError"
    by (auto simp add: export_geometry_def polygon_ring_def)
  show "\<forall>fs. f \<in> set fs \<longrightarrow> (\<exists>e. exportGeoJSON M fs = Inl e)"
  proof (intro allI impI)
    fix fs
    assume mem: "f \<in> set fs"
    from map_raising_error [of f fs "export_feature M" TypeError] mem
      export_feature_error [OF geo]
    obtain e' where "map_raising (export_feature M) fs = Inl e'" by blast
    moreover from mem have "length fs \<noteq> 0" by auto
    ultimately show "\<exists>e. exportGeoJSON M fs = Inl e"
      by (simp add: exportGeoJSON_def)
  qed
qed

theorem polygon_ring_roundtrip_witness:
  "(f_type square = Polygon \<or> f_type square = Rectangle)
   \<and> coordinates square = Ring [(0, 0), (0, 1), (1, 1), (1, 0)]
   \<and> [(0, 0), (0, 1), (1, 1), (1, 0)] \<noteq> ([] :: (real \<times> real) list)
   \<and> export_geometry doubles square =
        Inr (PolygonGeometry [ [(0, 0), (1, 0), (1, 1), (0, 1), (0, 0)] ])
   \<and> reimport_ring [(0, 0), (1, 0), (1, 1), (0, 1), (0, 0)]
        = [(0, 0), (0, 1), (1, 1), (1, 0)]
   \<and> exportGeoJSON doubles [square] =
        Inr (Some [\<lparr> properties = properties_of square,
                     geometry = PolygonGeometry [ [(0, 0), (1, 0), (1, 1), (0, 1), (0, 0)] ] \<rparr>])
   \<and> exportGeoJSON doubles [pin, square] =
        Inr (Some [\<lparr> properties = properties_of pin, geometry = Point (77.6, 12.9) \<rparr>,
                   \<lparr> properties = properties_of square,
                     geometry = PolygonGeometry [ [(0, 0), (1, 0), (1, 1), (0, 1), (0, 0)] ] \<rparr>])
   \<and> (f_type hollow = Polygon \<or> f_type hollow = Rectangle)
   \<and> coordinates hollow = Ring []
   \<and> export_geometry doubles hollow = Inl TypeError"
  using polygon_ring_roundtrip [of square "[(0, 0), (0, 1), (1, 1), (1, 0)]" doubles]
    polygon_ring_roundtrip [of hollow "[]" doubles]
  by (simp add: square_def hollow_def pin_def transposed_closed_def exportGeoJSON_def
      export_feature_def export_geometry_def polygon_ring_def properties_of_def)

text \<open>Against C3 as stated: for a polygon feature whose ring is empty the export reads
  \<^verbatim>\<open>[0][1]\<close> of the empty array and raises; no geometry is exported.\<close>

theorem empty_ring_export_raises:
  "f_type hollow = Polygon
   \<and> coordinates hollow = Ring []
   \<and> export_geometry doubles hollow = Inl TypeError
   \<and> exportGeoJSON doubles [hollow] = Inl TypeError"
  by (simp add: hollow_def export_geometry_def polygon_ring_def export_feature_def
      exportGeoJSON_def)

text \<open>
  C4, as the code has it. When the key \<open>aoi-features\<close> is missing, or holds the empty
  string, the feature list starts empty. Otherwise the result is whatever \<^verbatim>\<open>JSON.parse\<close>
  does with the persisted text: the parsed value, or, for a text that does not parse,
  the SyntaxError, which the initialiser does not catch.
\<close>

theorem load_features_cases:
  "(localStorage ''aoi-features'' = None \<longrightarrow> load_features JSON_parse localStorage = Inr [])
   \<and> (localStorage ''aoi-features'' = Some [] \<longrightarrow>
        load_features JSON_parse localStorage = Inr [])
   \<and> (\<forall>saved. localStorage ''aoi-features'' = Some saved \<and> saved \<noteq> [] \<longrightarrow>
        load_features JSON_parse localStorage = JSON_parse saved)"
  by (simp add: load_features_def)

theorem load_features_cases_witness:
  "(Map.empty :: Storage) ''aoi-features'' = None
   \<and> load_features parse_two_texts Map.empty = Inr []
   \<and> (Map.empty (''aoi-features'' \<mapsto> ''[]'')) ''aoi-features'' = Some ''[]''
   \<and> load_features parse_two_texts (Map.empty (''aoi-features'' \<mapsto> ''[]'')) = Inr []
   \<and> load_features parse_two_texts (Map.empty (''aoi-features'' \<mapsto> ''{'')) = Inl SyntaxError"
  using load_features_cases [of Map.empty parse_two_texts]
    load_features_cases [of "Map.empty (''aoi-features'' \<mapsto> ''[]'')" parse_two_texts]
    load_features_cases [of "Map.empty (''aoi-features'' \<mapsto> ''{'')" parse_two_texts]
  by (simp add: parse_two_texts_def)

text \<open>Against C4 as stated: with the persisted text \<^verbatim>\<open>{\<close> the initialiser raises the
  SyntaxError of the parser instead of falling back to the empty list.\<close>

theorem malformed_state_raises:
  "load_features parse_two_texts (Map.empty (''aoi-features'' \<mapsto> ''{'')) = Inl SyntaxError
   \<and> load_features parse_two_texts (Map.empty (''aoi-features'' \<mapsto> ''{'')) \<noteq> Inr []"
  by (simp add: load_features_def parse_two_texts_def)

text \<open>
  C5, as the code has it. \<open>addFeature f\<close> always appends \<open>f\<close> as the last element of the
  feature list, in the store and in the single-file application alike, and never fails;
  the ids of the new list are pairwise distinct exactly when the ids of the old list
  were and the id of \<open>f\<close> was not among them.
\<close>

theorem addFeature_appends:
  "features (addFeature f s) = features s @ [f]
   \<and> app_addFeature f fs = fs @ [f]
   \<and> (distinct (map f_id (features (addFeature f s))) \<longleftrightarrow>
        distinct (map f_id (features s)) \<and> f_id f \<notin> f_id ` set (features s))"
  by (auto simp add: addFeature_eq app_addFeature_def)

theorem addFeature_appends_witness:
  "features (addFeature pin initial_store) = [pin]
   \<and> distinct (map f_id (features (addFeature pin initial_store)))"
  using addFeature_appends [of pin initial_store]
  by (simp add: initial_store_def)

text \<open>Against C5 as stated: adding the same marker twice to the initial store succeeds
  and leaves two features with the id \<open>m1\<close>.\<close>

theorem addFeature_duplicate_id:
  "features (addFeature pin (addFeature pin initial_store)) = [pin, pin]
   \<and> \<not> distinct (map f_id (features (addFeature pin (addFeature pin initial_store))))"
  by (simp add: addFeature_eq initial_store_def)

text \<open>
  C6, as the code has it. The \<open>area\<close> of a feature produced at creation is present
  exactly when the area computed from the drawn layer is greater than 0, and then holds
  that value: for a circle when the radius is not 0, for a polygon or rectangle when
  \<open>calculatePolygonArea\<close> of the drawn ring is positive. It is absent for every marker.
  The draw handler of the single-file application stores the same \<open>area\<close>.
\<close>

theorem area_present_iff_positive:
  assumes "createFeatureFromLayer new_id now layer t nm n = Inr f"
  shows "(t = Marker \<longrightarrow> area f = None)
    \<and> (t = Circle \<longrightarrow>
         (\<exists>c r. layer = CircleLayer c r
            \<and> area f = (if r \<noteq> 0 then Some (calculateCircleArea r) else None)))
    \<and> (t = Polygon \<or> t = Rectangle \<longrightarrow>
         (\<exists>ring rest. layer = PolygonLayer (ring # rest)
            \<and> area f = (if 0 < calculatePolygonArea (Some ring)
                        then Some (calculatePolygonArea (Some ring)) else None)))
    \<and> (\<forall>a. area f = Some a \<longrightarrow> 0 < a \<and> t \<noteq> Marker)
    \<and> (\<forall>g. draw_created new_id now layer t fs = Inr g \<longrightarrow> area g = area f)"
proof -
  from assms obtain coords a where
    ca: "coordinates_and_area layer t = Inr (coords, a)"
    and f: "area f = (if 0 < a then Some a else None)"
    by (auto simp add: createFeatureFromLayer_def split: sum.splits)
  note cases = coordinates_and_area_cases [OF ca]
  have marker: "t = Marker \<longrightarrow> area f = None"
    using cases f by simp
  have circle: "t = Circle \<longrightarrow>
      (\<exists>c r. layer = CircleLayer c r
         \<and> area f = (if r \<noteq> 0 then Some (calculateCircleArea r) else None))"
  proof
    assume "t = Circle"
    with cases obtain c r where l: "layer = CircleLayer c r" and a: "a = calculateCircleArea r"
      by blast
    from f a have "area f = (if r \<noteq> 0 then Some (calculateCircleArea r) else None)"
      by (simp add: circle_area_positive)
    with l show "\<exists>c r. layer = CircleLayer c r
         \<and> area f = (if r \<noteq> 0 then Some (calculateCircleArea r) else None)"
      by blast
  qed
  have poly: "t = Polygon \<or> t = Rectangle \<longrightarrow>
      (\<exists>ring rest. layer = PolygonLayer (ring # rest)
         \<and> area f = (if 0 < calculatePolygonArea (Some ring)
                     then Some (calculatePolygonArea (Some ring)) else None))"
  proof
    assume "t = Polygon \<or> t = Rectangle"
    with cases obtain ring rest where l: "layer = PolygonLayer (ring # rest)"
      and a: "a = calculatePolygonArea (Some ring)"
      by blast
    from f a have "area f = (if 0 < calculatePolygonArea (Some ring)
                     then Some (calculatePolygonArea (Some ring)) else None)"
      by simp
    with l show "\<exists>ring rest. layer = PolygonLayer (ring # rest)
         \<and> area f = (if 0 < calculatePolygonArea (Some ring)
                     then Some (calculatePolygonArea (Some ring)) else None)"
      by blast
  qed
  have pos: "\<forall>b. area f = Some b \<longrightarrow> 0 < b \<and> t \<noteq> Marker"
    using marker f by (auto split: if_splits)
  have app: "\<forall>g. draw_created new_id now layer t fs = Inr g \<longrightarrow> area g = area f"
    using ca f by (auto simp add: draw_created_def)
  from marker circle poly pos app show ?thesis by blast
qed

theorem area_present_iff_positive_witness:
  "createFeatureFromLayer ''a2'' ''2024-01-01T00:00:00.000Z'' disc Circle [] 1 =
     Inr \<lparr> f_id = ''a2'', name = ''AOI 2'', f_type = Circle,
           coordinates = CircleShape (10, 77) 100, area = Some (calculateCircleArea 100),
           color = ''#8b5cf6'', createdAt = ''2024-01-01T00:00:00.000Z'' \<rparr>
   \<and> (\<exists>c r. disc = CircleLayer c r
         \<and> Some (calculateCircleArea 100)
             = (if r \<noteq> 0 then Some (calculateCircleArea r) else None))
   \<and> 0 < calculateCircleArea 100"
proof -
  have made: "createFeatureFromLayer ''a2'' ''2024-01-01T00:00:00.000Z'' disc Circle [] 1 =
     Inr \<lparr> f_id = ''a2'', name = ''AOI 2'', f_type = Circle,
           coordinates = CircleShape (10, 77) 100, area = Some (calculateCircleArea 100),
           color = ''#8b5cf6'', createdAt = ''2024-01-01T00:00:00.000Z'' \<rparr>"
    using circle_area_positive [of 100]
    by (simp add: createFeatureFromLayer_def coordinates_and_area_def disc_def
        FEATURE_COLORS_def)
  from area_present_iff_positive [OF made, of "[]"] made show ?thesis
    by simp
qed

text \<open>Against C6 as stated: a polygon drawn with its three vertices on one meridian has
  the computed area 0, and the feature created from it has no \<open>area\<close>.\<close>

theorem degenerate_polygon_has_no_area:
  "createFeatureFromLayer ''a1'' ''2024-01-01T00:00:00.000Z'' meridian Polygon [] 0 =
     Inr \<lparr> f_id = ''a1'', name = ''AOI 1'', f_type = Polygon,
           coordinates = Ring [(10, 77), (11, 77), (12, 77)], area = None,
           color = ''#3b82f6'', createdAt = ''2024-01-01T00:00:00.000Z'' \<rparr>"
  by (simp add: createFeatureFromLayer_def coordinates_and_area_def meridian_def
      meridian_area FEATURE_COLORS_def)

text \<open>
  C7. The claim is that the ring exported for a circle is closed: its last point equals
  its first. The code does not copy the first point, as the polygon branch does; it
  computes a 33rd sample at the angle \<^verbatim>\<open>(32 / 32) * 2 * Math.PI\<close>. For the circle of radius
  1000 m centred at latitude 0, longitude 0, with the values of the platform in doubles,
  the first point has the longitude 0 and the last point a negative one: the exported
  ring of 33 points is not closed.
\<close>

theorem circle_export_not_closed:
  "export_geometry doubles roundel =
     Inr (PolygonGeometry [map the (circle_ring doubles (0, 0) 1000)])
   \<and> length (circle_ring doubles (0, 0) 1000) = 33
   \<and> hd (circle_ring doubles (0, 0) 1000) = Some (0, 1000 / 111320)
   \<and> last (circle_ring doubles (0, 0) 1000) =
        Some (- (1000 / 111320 * (4967757600021511 / 2 ^ 104)), 1000 / 111320)
   \<and> last (circle_ring doubles (0, 0) 1000) \<noteq> hd (circle_ring doubles (0, 0) 1000)"
  by (simp add: export_roundel circle_ring_ends first_sample_doubles last_sample_doubles)

text \<open>
  C8, as the code has it. \<open>renameFeature i n\<close>, the action \<open>updateFeature\<close> with the single
  key \<open>name\<close>, replaces the \<open>name\<close> of every feature whose id is \<open>i\<close> and changes nothing
  else; when no feature has the id \<open>i\<close> it returns the store unchanged and reports
  nothing.
\<close>

theorem renameFeature_replaces_name:
  "features (renameFeature i n s) =
     map (\<lambda>f. if f_id f = i then f \<lparr> name := n \<rparr> else f) (features s)
   \<and> (i \<notin> f_id ` set (features s) \<longrightarrow> renameFeature i n s = s)"
  by (simp add: renameFeature_def updateFeature_eq spread_name_only map_absent)

theorem renameFeature_replaces_name_witness:
  "features (renameFeature ''m1'' ''Depot'' (addFeature pin initial_store))
     = [pin \<lparr> name := ''Depot'' \<rparr>]
   \<and> ''m2'' \<notin> f_id ` set (features (addFeature pin initial_store))
   \<and> renameFeature ''m2'' ''Depot'' (addFeature pin initial_store)
       = addFeature pin initial_store"
  using renameFeature_replaces_name [of "''m1''" "''Depot''" "addFeature pin initial_store"]
    renameFeature_replaces_name [of "''m2''" "''Depot''" "addFeature pin initial_store"]
  by (simp add: addFeature_eq initial_store_def pin_def)

text \<open>Against C8 as stated: renaming an id that no feature has returns the very same
  store; the action has no way to fail.\<close>

theorem rename_unknown_id_is_silent:
  "renameFeature ''nonexistent'' ''North field'' (addFeature pin initial_store)
     = addFeature pin initial_store"
  by (simp add: renameFeature_def updateFeature_eq addFeature_eq initial_store_def pin_def)

text \<open>
  C9, as the code has it. For every feature list and every id that no feature has,
  \<open>removeFeature\<close> returns the store unchanged; the action is total, there is no error
  to return. When the id is present it removes every feature that has the id, all of
  them when several share it, and keeps the others in their order; it removes exactly
  one feature when the ids of the list are pairwise distinct. The same holds for the
  list update of \<open>removeFeature\<close> in the single-file application.
\<close>

theorem removeFeature_filters:
  "(i \<notin> f_id ` set (features s) \<longrightarrow> removeFeature i s = s)
   \<and> features (removeFeature i s) = filter (\<lambda>f. f_id f \<noteq> i) (features s)
   \<and> (\<forall>f. f \<in> set (features (removeFeature i s)) \<longleftrightarrow> f \<in> set (features s) \<and> f_id f \<noteq> i)
   \<and> length (features (removeFeature i s)) + length (filter (\<lambda>f. f_id f = i) (features s))
       = length (features s)
   \<and> (\<forall>f \<in> set (features s). distinct (map f_id (features s)) \<and> f_id f = i \<longrightarrow>
         features (removeFeature i s) = remove1 f (features s))
   \<and> app_removeFeature i fs = filter (\<lambda>f. f_id f \<noteq> i) fs
   \<and> (i \<notin> f_id ` set fs \<longrightarrow> app_removeFeature i fs = fs)"
proof -
  have "length (filter (\<lambda>f. f_id f \<noteq> i) (features s))
      + length (filter (\<lambda>f. f_id f = i) (features s)) = length (features s)"
    using sum_length_filter_compl [of "\<lambda>f. f_id f = i" "features s"] by simp
  then show ?thesis
    by (auto simp add: removeFeature_eq app_removeFeature_def filter_absent filter_unique)
qed

theorem removeFeature_filters_witness:
  "''nonexistent'' \<notin> f_id ` set (features (addFeature flag (addFeature pin initial_store)))
   \<and> removeFeature ''nonexistent'' (addFeature flag (addFeature pin initial_store))
       = addFeature flag (addFeature pin initial_store)
   \<and> pin \<in> set (features (addFeature flag (addFeature pin initial_store)))
   \<and> distinct (map f_id (features (addFeature flag (addFeature pin initial_store))))
   \<and> features (removeFeature ''m1'' (addFeature flag (addFeature pin initial_store))) = [flag]
   \<and> features (removeFeature ''m1''
        (addFeature flag (addFeature twin (addFeature pin initial_store)))) = [flag]
   \<and> ''nonexistent'' \<notin> f_id ` set [pin, flag]
   \<and> app_removeFeature ''nonexistent'' [pin, flag] = [pin, flag]
   \<and> app_removeFeature ''m1'' [pin, twin, flag] = [flag]"
  using removeFeature_filters [of "''nonexistent''" "addFeature flag (addFeature pin initial_store)"
      "[pin, flag]"]
    removeFeature_filters [of "''m1''" "addFeature flag (addFeature pin initial_store)"
      "[pin, twin, flag]"]
    removeFeature_filters [of "''m1''"
      "addFeature flag (addFeature twin (addFeature pin initial_store))" "[pin, twin, flag]"]
  by (simp add: addFeature_eq initial_store_def pin_def twin_def flag_def)

text \<open>Against C9 as stated: in a store that holds two different markers with the id
  \<open>m1\<close>, removing \<open>m1\<close> removes both.\<close>

theorem removeFeature_removes_every_match:
  "features (addFeature twin (addFeature pin initial_store)) = [pin, twin]
   \<and> pin \<noteq> twin
   \<and> f_id pin = ''m1'' \<and> f_id twin = ''m1''
   \<and> features (removeFeature ''m1'' (addFeature twin (addFeature pin initial_store))) = []"
  by (simp add: addFeature_eq removeFeature_eq initial_store_def pin_def twin_def)

text \<open>
  C10. Each of the actions that change the feature list (\<open>addFeature\<close>,
  \<open>removeFeature\<close>, \<open>updateFeature\<close>, \<open>clearFeatures\<close>) leaves \<open>center\<close>, \<open>zoom\<close>,
  \<open>layers\<close> and \<open>selectedFeature\<close> of the store as they were.
\<close>

theorem store_mutations_frame:
  "center (addFeature f s) = center s \<and> zoom (addFeature f s) = zoom s
   \<and> layers (addFeature f s) = layers s
   \<and> selectedFeature (addFeature f s) = selectedFeature s
   \<and> center (removeFeature i s) = center s \<and> zoom (removeFeature i s) = zoom s
   \<and> layers (removeFeature i s) = layers s
   \<and> selectedFeature (removeFeature i s) = selectedFeature s
   \<and> center (updateFeature i u s) = center s \<and> zoom (updateFeature i u s) = zoom s
   \<and> layers (updateFeature i u s) = layers s
   \<and> selectedFeature (updateFeature i u s) = selectedFeature s
   \<and> center (clearFeatures s) = center s \<and> zoom (clearFeatures s) = zoom s
   \<and> layers (clearFeatures s) = layers s
   \<and> selectedFeature (clearFeatures s) = selectedFeature s"
  by (simp add: addFeature_eq removeFeature_eq updateFeature_eq clearFeatures_eq)


end
